theory Spec2Isabelle
  imports Complex_Main
begin

section \<open>The ASCVD risk calculator of \<^verbatim>\<open>ascvd.py\<close>\<close>

text \<open>
  The source is one Python function, \<^verbatim>\<open>calculate_ascvd_risk\<close>, with eleven parameters
  (five booleans, six integers). It raises \<^verbatim>\<open>HTTPException(status_code=400, detail=...)\<close>
  for an integer out of range, and otherwise returns a float.

  Python floats are modelled as real numbers: \<^verbatim>\<open>math.log\<close> is \<open>ln\<close>, \<^verbatim>\<open>math.exp\<close> is
  \<open>exp\<close>, \<^verbatim>\<open>**\<close> on a positive base is \<open>powr\<close>. The rounding error of the
  binary64 operations is not modelled; what the float operations can raise is:
  a logarithm of a non-positive number, an exponential beyond the largest double, a
  power with a base that is not positive. Python integers are \<open>int\<close>.
\<close>

subsection \<open>Errors and the Python arithmetic that can raise\<close>

datatype error =
    HTTPException int string   \<comment> \<open>status code and detail\<close>
  | ValueError                 \<comment> \<open>\<^verbatim>\<open>math.log\<close> of a number that is not positive\<close>
  | OverflowError              \<comment> \<open>a float result beyond the largest double\<close>
  | ZeroDivisionError          \<comment> \<open>\<^verbatim>\<open>0.0 ** y\<close> with negative \<open>y\<close>\<close>
  | TypeError                  \<comment> \<open>\<^verbatim>\<open>round\<close> of a complex number\<close>

definition bnd :: "error + 'a \<Rightarrow> ('a \<Rightarrow> error + 'b) \<Rightarrow> error + 'b" where
  "bnd m f = (case m of Inl e \<Rightarrow> Inl e | Inr x \<Rightarrow> f x)"

text \<open>The largest finite double, and the largest argument \<^verbatim>\<open>math.exp\<close> accepts.\<close>

definition dbl_max :: real where
  "dbl_max = (2 - 1 / 2 ^ 52) * 2 ^ 1023"

definition exp_max_arg :: real where
  "exp_max_arg = 709.782712893384"

definition py_log :: "int \<Rightarrow> error + real" where
  "py_log n = (if n \<le> 0 then Inl ValueError else Inr (ln (real_of_int n)))"

definition py_exp :: "real \<Rightarrow> error + real" where
  "py_exp x = (if exp_max_arg < x then Inl OverflowError else Inr (exp x))"

text \<open>
  \<^verbatim>\<open>b ** y\<close> on floats: a positive base gives \<open>b powr y\<close> unless that overflows; a zero
  base raises for a negative exponent; a negative base with a fractional exponent gives
  a complex number, which the \<^verbatim>\<open>round\<close> that follows in the source rejects.
\<close>

definition py_pow :: "real \<Rightarrow> real \<Rightarrow> error + real" where
  "py_pow b y =
     (if 0 < b then (if dbl_max < b powr y then Inl OverflowError else Inr (b powr y))
      else if b = 0 then
        (if y < 0 then Inl ZeroDivisionError else Inr (if y = 0 then 1 else 0))
      else if y = of_int \<lfloor>y\<rfloor> then
        (if dbl_max < \<bar>b powi \<lfloor>y\<rfloor>\<bar> then Inl OverflowError else Inr (b powi \<lfloor>y\<rfloor>))
      else Inl TypeError)"

text \<open>\<^verbatim>\<open>round(x)\<close> of a float: the nearest integer, a tie going to the even one.\<close>

definition py_round :: "real \<Rightarrow> int" where
  "py_round x =
     (let f = \<lfloor>x\<rfloor>; d = x - of_int f
      in if d < 1 / 2 then f
         else if 1 / 2 < d then f + 1
         else if even f then f else f + 1)"

subsection \<open>The function, section by section\<close>

text \<open>
  \<^verbatim>\<open># Validate input ranges\<close>: six range checks in the order of the source, each
  raising with its own detail string. \<open>None\<close> means that no check raised.
\<close>

definition validate_input_ranges :: "int \<Rightarrow> int \<Rightarrow> int \<Rightarrow> int \<Rightarrow> int \<Rightarrow> int \<Rightarrow> error option" where
  "validate_input_ranges age systolic_bp diastolic_bp total_cholesterol hdl ldl =
     (if \<not> (40 \<le> age \<and> age \<le> 79) then
        Some (HTTPException 400 ''Age must be between 40 and 79.'')
      else if \<not> (90 \<le> systolic_bp \<and> systolic_bp \<le> 200) then
        Some (HTTPException 400 ''Systolic BP must be between 90 and 200 mmHg.'')
      else if \<not> (60 \<le> diastolic_bp \<and> diastolic_bp \<le> 130) then
        Some (HTTPException 400 ''Diastolic BP must be between 60 and 130 mmHg.'')
      else if \<not> (130 \<le> total_cholesterol \<and> total_cholesterol \<le> 320) then
        Some (HTTPException 400 ''Total cholesterol must be between 130 and 320 mg/dL.'')
      else if \<not> (20 \<le> hdl \<and> hdl \<le> 100) then
        Some (HTTPException 400 ''HDL cholesterol must be between 20 and 100 mg/dL.'')
      else if \<not> (30 \<le> ldl \<and> ldl \<le> 300) then
        Some (HTTPException 400 ''LDL cholesterol must be between 30 and 300 mg/dL.'')
      else None)"

text \<open>\<^verbatim>\<open># Logarithmic calculations\<close>: the ten local variables of the source.\<close>

record log_terms =
  ln_age :: real
  ln_total_chol :: real
  ln_hdl :: real
  tr_ln_sbp :: real
  nt_ln_sbp :: real
  age_total_chol :: real
  age_hdl :: real
  age_tr_sbp :: real
  age_nt_sbp :: real
  age_smoke :: real

definition logarithmic_calculations ::
  "bool \<Rightarrow> bool \<Rightarrow> int \<Rightarrow> int \<Rightarrow> int \<Rightarrow> int \<Rightarrow> error + log_terms" where
  "logarithmic_calculations smoker hypertensive age systolic_bp total_cholesterol hdl =
     bnd (py_log age) (\<lambda>la.
     bnd (py_log total_cholesterol) (\<lambda>ltc.
     bnd (py_log hdl) (\<lambda>lh.
     bnd (if hypertensive then py_log systolic_bp else Inr 0) (\<lambda>tr.
     bnd (if hypertensive then Inr 0 else py_log systolic_bp) (\<lambda>nt.
     Inr \<lparr> ln_age = la, ln_total_chol = ltc, ln_hdl = lh,
           tr_ln_sbp = tr, nt_ln_sbp = nt,
           age_total_chol = la * ltc, age_hdl = la * lh,
           age_tr_sbp = la * tr, age_nt_sbp = la * nt,
           age_smoke = (if smoker then la else 0) \<rparr>)))))"

text \<open>
  \<^verbatim>\<open># Race and gender-based calculation\<close>: the \<^verbatim>\<open>if/elif/elif/else\<close> chain, which
  assigns \<^verbatim>\<open>s010\<close>, \<^verbatim>\<open>mnxb\<close> and \<^verbatim>\<open>predict\<close>. The result is that triple.
\<close>

definition race_gender_calculation ::
  "bool \<Rightarrow> bool \<Rightarrow> bool \<Rightarrow> bool \<Rightarrow> log_terms \<Rightarrow> real \<times> real \<times> real" where
  "race_gender_calculation is_male is_black smoker diabetic t =
     (if is_black \<and> \<not> is_male then
        (0.95334, 86.6081,
           17.1141 * ln_age t
           + 0.9396 * ln_total_chol t
           - 18.9196 * ln_hdl t
           + 4.4748 * age_hdl t
           + 29.2907 * tr_ln_sbp t
           - 6.4321 * age_tr_sbp t
           + 27.8197 * nt_ln_sbp t
           - 6.0873 * age_nt_sbp t
           + (if smoker then 0.6908 else 0)
           + (if diabetic then 0.8738 else 0))
      else if \<not> is_black \<and> \<not> is_male then
        (0.96652, - 29.1817,
           - 29.799 * ln_age t
           + 4.884 * (ln_age t) ^ 2
           + 13.54 * ln_total_chol t
           - 3.114 * age_total_chol t
           - 13.578 * ln_hdl t
           + 3.149 * age_hdl t
           + 2.019 * tr_ln_sbp t
           + 1.957 * nt_ln_sbp t
           + (if smoker then 7.574 else 0)
           - 1.665 * age_smoke t
           + (if diabetic then 0.661 else 0))
      else if is_black \<and> is_male then
        (0.89536, 19.5425,
           2.469 * ln_age t
           + 0.302 * ln_total_chol t
           - 0.307 * ln_hdl t
           + 1.916 * tr_ln_sbp t
           + 1.809 * nt_ln_sbp t
           + (if smoker then 0.549 else 0)
           + (if diabetic then 0.645 else 0))
      else
        (0.91436, 61.1816,
           12.344 * ln_age t
           + 11.853 * ln_total_chol t
           - 2.664 * age_total_chol t
           - 7.99 * ln_hdl t
           + 1.769 * age_hdl t
           + 1.797 * tr_ln_sbp t
           + 1.764 * nt_ln_sbp t
           + (if smoker then 7.837 else 0)
           - 1.795 * age_smoke t
           + (if diabetic then 0.658 else 0)))"

text \<open>
  \<^verbatim>\<open># Calculate risk percentage\<close>:
  \<^verbatim>\<open>risk = 1 - s010**math.exp(predict - mnxb); return round(risk * 1000) / 10\<close>.
\<close>

definition risk_percentage :: "real \<times> real \<times> real \<Rightarrow> error + real" where
  "risk_percentage c =
     (case c of (s010, mnxb, predict) \<Rightarrow>
        bnd (py_exp (predict - mnxb)) (\<lambda>e.
        bnd (py_pow s010 e) (\<lambda>p.
        Inr (real_of_int (py_round ((1 - p) * 1000)) / 10))))"

definition calculate_ascvd_risk ::
  "bool \<Rightarrow> bool \<Rightarrow> bool \<Rightarrow> bool \<Rightarrow> bool \<Rightarrow> int \<Rightarrow> int \<Rightarrow> int \<Rightarrow> int \<Rightarrow> int \<Rightarrow> int \<Rightarrow> error + real" where
  "calculate_ascvd_risk is_male is_black smoker hypertensive diabetic
       age systolic_bp diastolic_bp total_cholesterol hdl ldl =
     (case validate_input_ranges age systolic_bp diastolic_bp total_cholesterol hdl ldl of
        Some e \<Rightarrow> Inl e
      | None \<Rightarrow>
          bnd (logarithmic_calculations smoker hypertensive age systolic_bp total_cholesterol hdl)
            (\<lambda>t. risk_percentage (race_gender_calculation is_male is_black smoker diabetic t)))"

subsection \<open>Valid inputs and the value computed for them\<close>

text \<open>
  The six inclusive ranges, the ten transformed terms as pure values, and the last two
  lines of the source without their error cases: what the function returns once nothing
  raises.
\<close>

definition in_range :: "int \<Rightarrow> int \<Rightarrow> int \<Rightarrow> int \<Rightarrow> int \<Rightarrow> int \<Rightarrow> bool" where
  "in_range age systolic_bp diastolic_bp total_cholesterol hdl ldl \<longleftrightarrow>
     40 \<le> age \<and> age \<le> 79 \<and> 90 \<le> systolic_bp \<and> systolic_bp \<le> 200 \<and>
     60 \<le> diastolic_bp \<and> diastolic_bp \<le> 130 \<and>
     130 \<le> total_cholesterol \<and> total_cholesterol \<le> 320 \<and>
     20 \<le> hdl \<and> hdl \<le> 100 \<and> 30 \<le> ldl \<and> ldl \<le> 300"

definition transformed_terms :: "bool \<Rightarrow> bool \<Rightarrow> int \<Rightarrow> int \<Rightarrow> int \<Rightarrow> int \<Rightarrow> log_terms" where
  "transformed_terms smoker hypertensive age systolic_bp total_cholesterol hdl =
     \<lparr> ln_age = ln (real_of_int age),
       ln_total_chol = ln (real_of_int total_cholesterol),
       ln_hdl = ln (real_of_int hdl),
       tr_ln_sbp = (if hypertensive then ln (real_of_int systolic_bp) else 0),
       nt_ln_sbp = (if hypertensive then 0 else ln (real_of_int systolic_bp)),
       age_total_chol = ln (real_of_int age) * ln (real_of_int total_cholesterol),
       age_hdl = ln (real_of_int age) * ln (real_of_int hdl),
       age_tr_sbp = ln (real_of_int age) * (if hypertensive then ln (real_of_int systolic_bp) else 0),
       age_nt_sbp = ln (real_of_int age) * (if hypertensive then 0 else ln (real_of_int systolic_bp)),
       age_smoke = (if smoker then ln (real_of_int age) else 0) \<rparr>"

definition rounded_percentage :: "real \<times> real \<times> real \<Rightarrow> real" where
  "rounded_percentage c =
     (case c of (s010, mnxb, predict) \<Rightarrow>
        real_of_int (py_round ((1 - s010 powr exp (predict - mnxb)) * 1000)) / 10)"

text \<open>Partial sums of the exponential series, to bound \<open>exp\<close> and \<open>ln\<close> at numerals.\<close>

fun taylor_exp :: "nat \<Rightarrow> real \<Rightarrow> real" where
  "taylor_exp 0 x = 0"
| "taylor_exp (Suc n) x = taylor_exp n x + x ^ n / fact n"

subsection \<open>The range checks as an ordered table\<close>

text \<open>
  The six checks as the specification lists them: a field, its value, its minimum and
  its maximum, in the order age, systolic BP, diastolic BP, total cholesterol, HDL, LDL.
  \<open>first_violation\<close> is the first field of that order whose value is out of range;
  \<open>field_detail\<close> is the detail string of the field's \<^verbatim>\<open>raise\<close> in the source,
  \<open>field_label\<close> the name by which that string calls the field.
\<close>

datatype field = Age | SystolicBP | DiastolicBP | TotalCholesterol | HDL | LDL

definition field_order :: "field list" where
  "field_order = [Age, SystolicBP, DiastolicBP, TotalCholesterol, HDL, LDL]"

fun field_min :: "field \<Rightarrow> int" where
  "field_min Age = 40"
| "field_min SystolicBP = 90"
| "field_min DiastolicBP = 60"
| "field_min TotalCholesterol = 130"
| "field_min HDL = 20"
| "field_min LDL = 30"

fun field_max :: "field \<Rightarrow> int" where
  "field_max Age = 79"
| "field_max SystolicBP = 200"
| "field_max DiastolicBP = 130"
| "field_max TotalCholesterol = 320"
| "field_max HDL = 100"
| "field_max LDL = 300"

fun field_value :: "field \<Rightarrow> int \<Rightarrow> int \<Rightarrow> int \<Rightarrow> int \<Rightarrow> int \<Rightarrow> int \<Rightarrow> int" where
  "field_value Age age systolic_bp diastolic_bp total_cholesterol hdl ldl = age"
| "field_value SystolicBP age systolic_bp diastolic_bp total_cholesterol hdl ldl = systolic_bp"
| "field_value DiastolicBP age systolic_bp diastolic_bp total_cholesterol hdl ldl = diastolic_bp"
| "field_value TotalCholesterol age systolic_bp diastolic_bp total_cholesterol hdl ldl = total_cholesterol"
| "field_value HDL age systolic_bp diastolic_bp total_cholesterol hdl ldl = hdl"
| "field_value LDL age systolic_bp diastolic_bp total_cholesterol hdl ldl = ldl"

definition violates :: "field \<Rightarrow> int \<Rightarrow> int \<Rightarrow> int \<Rightarrow> int \<Rightarrow> int \<Rightarrow> int \<Rightarrow> bool" where
  "violates f age systolic_bp diastolic_bp total_cholesterol hdl ldl \<longleftrightarrow>
     field_value f age systolic_bp diastolic_bp total_cholesterol hdl ldl < field_min f \<or>
     field_max f < field_value f age systolic_bp diastolic_bp total_cholesterol hdl ldl"

definition first_violation :: "int \<Rightarrow> int \<Rightarrow> int \<Rightarrow> int \<Rightarrow> int \<Rightarrow> int \<Rightarrow> field option" where
  "first_violation age systolic_bp diastolic_bp total_cholesterol hdl ldl =
     find (\<lambda>f. violates f age systolic_bp diastolic_bp total_cholesterol hdl ldl) field_order"

fun field_detail :: "field \<Rightarrow> string" where
  "field_detail Age = ''Age must be between 40 and 79.''"
| "field_detail SystolicBP = ''Systolic BP must be between 90 and 200 mmHg.''"
| "field_detail DiastolicBP = ''Diastolic BP must be between 60 and 130 mmHg.''"
| "field_detail TotalCholesterol = ''Total cholesterol must be between 130 and 320 mg/dL.''"
| "field_detail HDL = ''HDL cholesterol must be between 20 and 100 mg/dL.''"
| "field_detail LDL = ''LDL cholesterol must be between 30 and 300 mg/dL.''"

fun field_label :: "field \<Rightarrow> string" where
  "field_label Age = ''Age''"
| "field_label SystolicBP = ''Systolic BP''"
| "field_label DiastolicBP = ''Diastolic BP''"
| "field_label TotalCholesterol = ''Total cholesterol''"
| "field_label HDL = ''HDL cholesterol''"
| "field_label LDL = ''LDL cholesterol''"

text \<open>
  What it means for a message to name something: the text occurs in it. \<open>str_int\<close>
  is the decimal text of an integer, as Python's \<^verbatim>\<open>str\<close> prints it.
\<close>

fun starts_with :: "string \<Rightarrow> string \<Rightarrow> bool" where
  "starts_with s [] = True"
| "starts_with [] (c # p) = False"
| "starts_with (d # s) (c # p) = (d = c \<and> starts_with s p)"

fun contains :: "string \<Rightarrow> string \<Rightarrow> bool" where
  "contains [] p = (p = [])"
| "contains (d # s) p = (starts_with (d # s) p \<or> contains s p)"

definition digit_char :: "nat \<Rightarrow> char" where
  "digit_char d = ''0123456789'' ! d"

function str_nat :: "nat \<Rightarrow> string" where
  "str_nat n = (if n < 10 then [digit_char n] else str_nat (n div 10) @ [digit_char (n mod 10)])"
  by pat_completeness auto
termination
  by (relation "measure id") auto

definition str_int :: "int \<Rightarrow> string" where
  "str_int i = (if i < 0 then CHR ''-'' # str_nat (nat (- i)) else str_nat (nat i))"

subsection \<open>The specification's formula\<close>

text \<open>
  The specification's data-driven form: a closed enumeration of subgroups, each with a
  coefficient record, and one linear predictor over the transformed terms. A term that a
  subgroup does not use has coefficient 0. The coefficients are those of the four
  branches of the source.
\<close>

datatype subgroup = BlackFemale | NonBlackFemale | BlackMale | NonBlackMale

fun select_subgroup :: "bool \<Rightarrow> bool \<Rightarrow> subgroup" where
  "select_subgroup True False = BlackFemale"
| "select_subgroup False False = NonBlackFemale"
| "select_subgroup True True = BlackMale"
| "select_subgroup False True = NonBlackMale"

record coefficient_set =
  s010 :: real
  meanXB :: real
  c_ln_age :: real
  c_ln_age_sq :: real
  c_ln_total_chol :: real
  c_age_total_chol :: real
  c_ln_hdl :: real
  c_age_hdl :: real
  c_tr_ln_sbp :: real
  c_age_tr_sbp :: real
  c_nt_ln_sbp :: real
  c_age_nt_sbp :: real
  c_smoker :: real
  c_age_smoke :: real
  c_diabetic :: real

fun coefficients :: "subgroup \<Rightarrow> coefficient_set" where
  "coefficients BlackFemale =
     \<lparr> s010 = 0.95334, meanXB = 86.6081,
       c_ln_age = 17.1141, c_ln_age_sq = 0,
       c_ln_total_chol = 0.9396, c_age_total_chol = 0,
       c_ln_hdl = - 18.9196, c_age_hdl = 4.4748,
       c_tr_ln_sbp = 29.2907, c_age_tr_sbp = - 6.4321,
       c_nt_ln_sbp = 27.8197, c_age_nt_sbp = - 6.0873,
       c_smoker = 0.6908, c_age_smoke = 0, c_diabetic = 0.8738 \<rparr>"
| "coefficients NonBlackFemale =
     \<lparr> s010 = 0.96652, meanXB = - 29.1817,
       c_ln_age = - 29.799, c_ln_age_sq = 4.884,
       c_ln_total_chol = 13.54, c_age_total_chol = - 3.114,
       c_ln_hdl = - 13.578, c_age_hdl = 3.149,
       c_tr_ln_sbp = 2.019, c_age_tr_sbp = 0,
       c_nt_ln_sbp = 1.957, c_age_nt_sbp = 0,
       c_smoker = 7.574, c_age_smoke = - 1.665, c_diabetic = 0.661 \<rparr>"
| "coefficients BlackMale =
     \<lparr> s010 = 0.89536, meanXB = 19.5425,
       c_ln_age = 2.469, c_ln_age_sq = 0,
       c_ln_total_chol = 0.302, c_age_total_chol = 0,
       c_ln_hdl = - 0.307, c_age_hdl = 0,
       c_tr_ln_sbp = 1.916, c_age_tr_sbp = 0,
       c_nt_ln_sbp = 1.809, c_age_nt_sbp = 0,
       c_smoker = 0.549, c_age_smoke = 0, c_diabetic = 0.645 \<rparr>"
| "coefficients NonBlackMale =
     \<lparr> s010 = 0.91436, meanXB = 61.1816,
       c_ln_age = 12.344, c_ln_age_sq = 0,
       c_ln_total_chol = 11.853, c_age_total_chol = - 2.664,
       c_ln_hdl = - 7.99, c_age_hdl = 1.769,
       c_tr_ln_sbp = 1.797, c_age_tr_sbp = 0,
       c_nt_ln_sbp = 1.764, c_age_nt_sbp = 0,
       c_smoker = 7.837, c_age_smoke = - 1.795, c_diabetic = 0.658 \<rparr>"

definition linear_predictor :: "coefficient_set \<Rightarrow> bool \<Rightarrow> bool \<Rightarrow> log_terms \<Rightarrow> real" where
  "linear_predictor cs smoker diabetic t =
     c_ln_age cs * ln_age t + c_ln_age_sq cs * (ln_age t) ^ 2
     + c_ln_total_chol cs * ln_total_chol t + c_age_total_chol cs * age_total_chol t
     + c_ln_hdl cs * ln_hdl t + c_age_hdl cs * age_hdl t
     + c_tr_ln_sbp cs * tr_ln_sbp t + c_age_tr_sbp cs * age_tr_sbp t
     + c_nt_ln_sbp cs * nt_ln_sbp t + c_age_nt_sbp cs * age_nt_sbp t
     + (if smoker then c_smoker cs else 0) + c_age_smoke cs * age_smoke t
     + (if diabetic then c_diabetic cs else 0)"

text \<open>
  \<open>computeRisk\<close> as the specification writes it: transform, select, then
  \<open>risk = 1 - s010 ^ exp (predict - meanXB)\<close> and
  \<open>riskPercent = round (risk * 1000) / 10\<close>.
\<close>

definition computeRisk ::
  "bool \<Rightarrow> bool \<Rightarrow> bool \<Rightarrow> bool \<Rightarrow> bool \<Rightarrow> int \<Rightarrow> int \<Rightarrow> int \<Rightarrow> int \<Rightarrow> real" where
  "computeRisk isMale isBlack smoker hypertensive diabetic age systolicBP totalCholesterol hdl =
     (let lnAge = ln (real_of_int age);
          lnTotalChol = ln (real_of_int totalCholesterol);
          lnHdl = ln (real_of_int hdl);
          treatedLnSBP = (if hypertensive then ln (real_of_int systolicBP) else 0);
          untreatedLnSBP = (if hypertensive then 0 else ln (real_of_int systolicBP));
          terms = \<lparr> ln_age = lnAge, ln_total_chol = lnTotalChol, ln_hdl = lnHdl,
                    tr_ln_sbp = treatedLnSBP, nt_ln_sbp = untreatedLnSBP,
                    age_total_chol = lnAge * lnTotalChol, age_hdl = lnAge * lnHdl,
                    age_tr_sbp = lnAge * treatedLnSBP, age_nt_sbp = lnAge * untreatedLnSBP,
                    age_smoke = (if smoker then lnAge else 0) \<rparr>;
          cs = coefficients (select_subgroup isBlack isMale);
          predict = linear_predictor cs smoker diabetic terms;
          risk = 1 - s010 cs powr exp (predict - meanXB cs)
      in real_of_int (py_round (risk * 1000)) / 10)"

subsection \<open>The terms of a predictor\<close>

text \<open>
  Whether a subgroup's predictor has an \<^verbatim>\<open>age_smoke\<close> term (its value changes with that
  term alone) and a squared \<^verbatim>\<open>ln_age\<close> term (it is not affine in \<^verbatim>\<open>ln_age\<close>: a second
  difference is not zero).
\<close>

definition predict_of :: "bool \<Rightarrow> bool \<Rightarrow> bool \<Rightarrow> bool \<Rightarrow> log_terms \<Rightarrow> real" where
  "predict_of is_male is_black smoker diabetic t =
     snd (snd (race_gender_calculation is_male is_black smoker diabetic t))"

definition has_age_smoke_term :: "bool \<Rightarrow> bool \<Rightarrow> bool" where
  "has_age_smoke_term is_male is_black \<longleftrightarrow>
     (\<exists>smoker diabetic t v.
        predict_of is_male is_black smoker diabetic (t\<lparr>age_smoke := v\<rparr>)
        \<noteq> predict_of is_male is_black smoker diabetic t)"

definition has_squared_ln_age_term :: "bool \<Rightarrow> bool \<Rightarrow> bool" where
  "has_squared_ln_age_term is_male is_black \<longleftrightarrow>
     (\<exists>smoker diabetic t x h.
        predict_of is_male is_black smoker diabetic (t\<lparr>ln_age := x + h\<rparr>)
        + predict_of is_male is_black smoker diabetic (t\<lparr>ln_age := x - h\<rparr>)
        \<noteq> 2 * predict_of is_male is_black smoker diabetic (t\<lparr>ln_age := x\<rparr>))"

section \<open>Properties\<close>

subsection \<open>The error monad and the transformed terms\<close>

lemma bnd_Inr [simp]: "bnd (Inr x) f = f x"
  by (simp add: bnd_def)

lemma bnd_Inl [simp]: "bnd (Inl e) f = Inl e"
  by (simp add: bnd_def)

lemma validate_None_iff:
  "validate_input_ranges age systolic_bp diastolic_bp total_cholesterol hdl ldl = None
     \<longleftrightarrow> in_range age systolic_bp diastolic_bp total_cholesterol hdl ldl"
  by (auto simp: validate_input_ranges_def in_range_def)

lemma py_log_pos: "0 < n \<Longrightarrow> py_log n = Inr (ln (real_of_int n))"
  by (simp add: py_log_def)

lemma logarithmic_calculations_in_range:
  assumes "in_range age systolic_bp diastolic_bp total_cholesterol hdl ldl"
  shows "logarithmic_calculations smoker hypertensive age systolic_bp total_cholesterol hdl
         = Inr (transformed_terms smoker hypertensive age systolic_bp total_cholesterol hdl)"
proof -
  from assms have "0 < age" "0 < systolic_bp" "0 < total_cholesterol" "0 < hdl"
    by (simp_all add: in_range_def)
  then show ?thesis
    by (simp add: logarithmic_calculations_def transformed_terms_def py_log_pos)
qed

subsection \<open>Bounds on logarithms\<close>

lemma exp_taylor_lower:
  fixes x :: real
  assumes "even n \<or> 0 \<le> x"
  shows "(\<Sum>m<n. x ^ m / fact m) \<le> exp x"
proof -
  obtain t where t: "exp x = (\<Sum>m<n. x ^ m / fact m) + (exp t / fact n) * x ^ n"
    using Maclaurin_exp_le [of x n] by blast
  have "0 \<le> x ^ n"
    using assms by (auto simp: zero_le_even_power)
  then have "0 \<le> (exp t / fact n) * x ^ n"
    by simp
  with t show ?thesis by linarith
qed

lemma taylor_exp_sum: "taylor_exp n x = (\<Sum>m<n. x ^ m / fact m)"
  by (induction n) simp_all

lemma taylor_exp_le: "even n \<or> 0 \<le> x \<Longrightarrow> taylor_exp n x \<le> exp x"
  unfolding taylor_exp_sum by (rule exp_taylor_lower)

lemma ln2_lower: "0.6931 \<le> ln (2::real)"
proof -
  have "(1/2::real) \<le> taylor_exp 8 (- 0.6931)"
    by (simp add: eval_nat_numeral)
  also have "\<dots> \<le> exp (- 0.6931)"
    by (rule taylor_exp_le) simp
  finally have "exp (0.6931::real) \<le> 2"
    by (simp add: exp_minus field_simps)
  then show ?thesis
    using ln_ge_iff [of 2 "0.6931"] by simp
qed

lemma ln2_upper: "ln (2::real) \<le> 0.6932"
proof -
  have "(2::real) \<le> taylor_exp 8 0.6932"
    by (simp add: eval_nat_numeral)
  also have "\<dots> \<le> exp 0.6932"
    by (rule taylor_exp_le) simp
  finally have "ln (2::real) \<le> ln (exp 0.6932)"
    by (intro ln_mono) simp_all
  then show ?thesis by simp
qed

lemma ln5_lower: "1.609 \<le> ln (5::real)"
proof -
  have "(1/5::real) \<le> taylor_exp 12 (- 1.609)"
    by (simp add: eval_nat_numeral)
  also have "\<dots> \<le> exp (- 1.609)"
    by (rule taylor_exp_le) simp
  finally have "exp (1.609::real) \<le> 5"
    by (simp add: exp_minus field_simps)
  then show ?thesis
    using ln_ge_iff [of 5 "1.609"] by simp
qed

lemma ln5_upper: "ln (5::real) \<le> 1.6095"
proof -
  have "(5::real) \<le> taylor_exp 12 1.6095"
    by (simp add: eval_nat_numeral)
  also have "\<dots> \<le> exp 1.6095"
    by (rule taylor_exp_le) simp
  finally have "ln (5::real) \<le> ln (exp 1.6095)"
    by (intro ln_mono) simp_all
  then show ?thesis by simp
qed

lemma ln_20: "ln (20::real) = 2 * ln 2 + ln 5"
  using ln_mult_pos [of "2 ^ 2" "5::real"] ln_realpow [of "2::real" 2] by simp

lemma ln_40: "ln (40::real) = 3 * ln 2 + ln 5"
  using ln_mult_pos [of "2 ^ 3" "5::real"] ln_realpow [of "2::real" 3] by simp

lemma ln_64: "ln (64::real) = 6 * ln 2"
  using ln_realpow [of "2::real" 6] by simp

lemma ln_80: "ln (80::real) = 4 * ln 2 + ln 5"
  using ln_mult_pos [of "2 ^ 4" "5::real"] ln_realpow [of "2::real" 4] by simp

lemma ln_100: "ln (100::real) = 2 * ln 2 + 2 * ln 5"
  using ln_mult_pos [of "2 ^ 2" "5 ^ 2::real"] ln_realpow [of "2::real" 2]
    ln_realpow [of "5::real" 2] by simp

lemma ln_200: "ln (200::real) = 3 * ln 2 + 2 * ln 5"
  using ln_mult_pos [of "2 ^ 3" "5 ^ 2::real"] ln_realpow [of "2::real" 3]
    ln_realpow [of "5::real" 2] by simp

lemma ln_320: "ln (320::real) = 6 * ln 2 + ln 5"
  using ln_mult_pos [of "2 ^ 6" "5::real"] ln_realpow [of "2::real" 6] by simp

lemma ln_int_mono: "0 < a \<Longrightarrow> a \<le> b \<Longrightarrow> ln (real_of_int a) \<le> ln (real_of_int b)"
  by (intro ln_mono) simp_all

lemma ln_bounds_in_range:
  assumes "in_range age systolic_bp diastolic_bp total_cholesterol hdl ldl"
  shows "3.688 \<le> ln (real_of_int age)" "ln (real_of_int age) \<le> 4.3823"
    "0 < ln (real_of_int total_cholesterol)" "ln (real_of_int total_cholesterol) \<le> 5.7687"
    "2.995 \<le> ln (real_of_int hdl)" "ln (real_of_int hdl) \<le> 4.6054"
    "0 < ln (real_of_int systolic_bp)" "ln (real_of_int systolic_bp) \<le> 5.2986"
proof -
  from assms have r: "40 \<le> age" "age \<le> 80" "1 < total_cholesterol" "total_cholesterol \<le> 320"
    "20 \<le> hdl" "hdl \<le> 100" "1 < systolic_bp" "systolic_bp \<le> 200"
    by (simp_all add: in_range_def)
  have "ln (real_of_int 40) \<le> ln (real_of_int age)"
    using r by (intro ln_int_mono) simp_all
  then show "3.688 \<le> ln (real_of_int age)"
    using ln_40 ln2_lower ln5_lower by simp
  have "ln (real_of_int age) \<le> ln (real_of_int 80)"
    using r by (intro ln_int_mono) simp_all
  then show "ln (real_of_int age) \<le> 4.3823"
    using ln_80 ln2_upper ln5_upper by simp
  show "0 < ln (real_of_int total_cholesterol)"
    using r by simp
  have "ln (real_of_int total_cholesterol) \<le> ln (real_of_int 320)"
    using r by (intro ln_int_mono) simp_all
  then show "ln (real_of_int total_cholesterol) \<le> 5.7687"
    using ln_320 ln2_upper ln5_upper by simp
  have "ln (real_of_int 20) \<le> ln (real_of_int hdl)"
    using r by (intro ln_int_mono) simp_all
  then show "2.995 \<le> ln (real_of_int hdl)"
    using ln_20 ln2_lower ln5_lower by simp
  have "ln (real_of_int hdl) \<le> ln (real_of_int 100)"
    using r by (intro ln_int_mono) simp_all
  then show "ln (real_of_int hdl) \<le> 4.6054"
    using ln_100 ln2_upper ln5_upper by simp
  show "0 < ln (real_of_int systolic_bp)"
    using r by simp
  have "ln (real_of_int systolic_bp) \<le> ln (real_of_int 200)"
    using r by (intro ln_int_mono) simp_all
  then show "ln (real_of_int systolic_bp) \<le> 5.2986"
    using ln_200 ln2_upper ln5_upper by simp
qed

lemma mult_upper:
  fixes a b u v :: real
  assumes "0 \<le> a" "a \<le> u" "0 \<le> b" "b \<le> v"
  shows "a * b \<le> u * v"
  using assms by (intro mult_mono) simp_all

lemma mult_lower:
  fixes a b l k :: real
  assumes "0 \<le> l" "l \<le> a" "0 \<le> k" "k \<le> b"
  shows "l * k \<le> a * b"
  using assms by (intro mult_mono) simp_all

lemma predict_upper:
  assumes "0 \<le> ln_age t" "ln_age t \<le> 5"
    and "0 \<le> ln_total_chol t" "ln_total_chol t \<le> 6"
    and "0 \<le> ln_hdl t"
    and "0 \<le> tr_ln_sbp t" "tr_ln_sbp t \<le> 6"
    and "0 \<le> nt_ln_sbp t" "nt_ln_sbp t \<le> 6"
    and "0 \<le> age_total_chol t"
    and "0 \<le> age_hdl t" "age_hdl t \<le> 25"
    and "0 \<le> age_tr_sbp t" "0 \<le> age_nt_sbp t" "0 \<le> age_smoke t"
  shows "snd (snd (race_gender_calculation is_male is_black smoker diabetic t))
         - fst (snd (race_gender_calculation is_male is_black smoker diabetic t)) \<le> exp_max_arg"
proof -
  have sq: "(ln_age t) ^ 2 \<le> 25"
    using mult_upper [of "ln_age t" 5 "ln_age t" 5] assms by (simp add: power2_eq_square)
  show ?thesis
    using assms sq
    by (cases is_male; cases is_black) (simp_all add: race_gender_calculation_def exp_max_arg_def)
qed

lemma predict_no_overflow:
  assumes "in_range age systolic_bp diastolic_bp total_cholesterol hdl ldl"
  shows "snd (snd (race_gender_calculation is_male is_black smoker diabetic
            (transformed_terms smoker hypertensive age systolic_bp total_cholesterol hdl)))
         - fst (snd (race_gender_calculation is_male is_black smoker diabetic
            (transformed_terms smoker hypertensive age systolic_bp total_cholesterol hdl)))
         \<le> exp_max_arg"
proof -
  define A where "A = ln (real_of_int age)"
  define T where "T = ln (real_of_int total_cholesterol)"
  define H where "H = ln (real_of_int hdl)"
  define S where "S = ln (real_of_int systolic_bp)"
  note b = ln_bounds_in_range [OF assms, folded A_def T_def H_def S_def]
  have A: "0 \<le> A" "A \<le> 5" using b by simp_all
  have T: "0 \<le> T" "T \<le> 6" using b by simp_all
  have H: "0 \<le> H" "H \<le> 5" using b by simp_all
  have S: "0 \<le> S" "S \<le> 6" using b by simp_all
  have AT: "0 \<le> A * T"
    using A T by simp
  have AH: "0 \<le> A * H" "A * H \<le> 25"
    using A H mult_upper [of A 5 H 5] by simp_all
  have AS: "0 \<le> A * S"
    using A S by simp
  show ?thesis
    by (rule predict_upper)
       (simp_all add: transformed_terms_def A_def [symmetric] T_def [symmetric]
          H_def [symmetric] S_def [symmetric] A T H S AT AH AS)
qed

subsection \<open>Validation and the first violation\<close>

lemma first_violation_None_iff:
  "first_violation age systolic_bp diastolic_bp total_cholesterol hdl ldl = None
     \<longleftrightarrow> in_range age systolic_bp diastolic_bp total_cholesterol hdl ldl"
  by (auto simp: first_violation_def field_order_def violates_def in_range_def)

lemma validate_first_violation:
  "validate_input_ranges age systolic_bp diastolic_bp total_cholesterol hdl ldl =
     map_option (\<lambda>f. HTTPException 400 (field_detail f))
       (first_violation age systolic_bp diastolic_bp total_cholesterol hdl ldl)"
  by (simp add: validate_input_ranges_def first_violation_def field_order_def violates_def
        not_le not_less)


subsection \<open>A valid input never raises\<close>

lemma dbl_max_ge_1: "1 \<le> dbl_max"
proof -
  have "(1::real) \<le> 2 - 1 / 2 ^ 52" by simp
  moreover have "(1::real) \<le> 2 ^ 1023" by (rule one_le_power) simp
  ultimately have "(1::real) * 1 \<le> (2 - 1 / 2 ^ 52) * 2 ^ 1023"
    by (intro mult_mono) simp_all
  then show ?thesis by (simp add: dbl_max_def)
qed

lemma py_pow_unit:
  assumes "0 < b" "b < 1" "0 \<le> y"
  shows "py_pow b y = Inr (b powr y)"
proof -
  have "b powr y \<le> 1"
    using assms by (intro powr_le1) simp_all
  with dbl_max_ge_1 have "\<not> dbl_max < b powr y" by linarith
  with assms show ?thesis by (simp add: py_pow_def)
qed

lemma risk_percentage_value:
  assumes "0 < s" "s < 1" "p - m \<le> exp_max_arg"
  shows "risk_percentage (s, m, p) = Inr (rounded_percentage (s, m, p))"
  using assms by (simp add: risk_percentage_def rounded_percentage_def py_exp_def py_pow_unit)

lemma s010_unit:
  "0 < fst (race_gender_calculation is_male is_black smoker diabetic t)"
  "fst (race_gender_calculation is_male is_black smoker diabetic t) < 1"
  by (simp_all add: race_gender_calculation_def)

lemma calculate_in_range:
  assumes "in_range age systolic_bp diastolic_bp total_cholesterol hdl ldl"
  shows "calculate_ascvd_risk is_male is_black smoker hypertensive diabetic
           age systolic_bp diastolic_bp total_cholesterol hdl ldl
         = Inr (rounded_percentage (race_gender_calculation is_male is_black smoker diabetic
             (transformed_terms smoker hypertensive age systolic_bp total_cholesterol hdl)))"
proof -
  let ?t = "transformed_terms smoker hypertensive age systolic_bp total_cholesterol hdl"
  let ?c = "race_gender_calculation is_male is_black smoker diabetic ?t"
  have c: "?c = (fst ?c, fst (snd ?c), snd (snd ?c))" by simp
  have "risk_percentage (fst ?c, fst (snd ?c), snd (snd ?c))
        = Inr (rounded_percentage (fst ?c, fst (snd ?c), snd (snd ?c)))"
    by (rule risk_percentage_value) (rule s010_unit predict_no_overflow [OF assms])+
  then have "risk_percentage ?c = Inr (rounded_percentage ?c)"
    by simp
  then show ?thesis
    using assms
    by (simp add: calculate_ascvd_risk_def validate_None_iff [THEN iffD2]
          logarithmic_calculations_in_range)
qed

lemma calculate_out_of_range:
  assumes "first_violation age systolic_bp diastolic_bp total_cholesterol hdl ldl = Some f"
  shows "calculate_ascvd_risk is_male is_black smoker hypertensive diabetic
           age systolic_bp diastolic_bp total_cholesterol hdl ldl
         = Inl (HTTPException 400 (field_detail f))"
  using assms by (simp add: calculate_ascvd_risk_def validate_first_violation)

text \<open>
  C4. The call fails with a validation error (status 400) exactly when one of the six
  fields is outside its inclusive range, and succeeds otherwise; the error raised is
  the one of the first violating field in the order age, systolic BP, diastolic BP,
  total cholesterol, HDL, LDL.
\<close>

theorem validation_first_violation:
  "((\<exists>d. calculate_ascvd_risk is_male is_black smoker hypertensive diabetic
            age systolic_bp diastolic_bp total_cholesterol hdl ldl = Inl (HTTPException 400 d))
      \<longleftrightarrow> \<not> in_range age systolic_bp diastolic_bp total_cholesterol hdl ldl)
   \<and> ((\<exists>r. calculate_ascvd_risk is_male is_black smoker hypertensive diabetic
            age systolic_bp diastolic_bp total_cholesterol hdl ldl = Inr r)
      \<longleftrightarrow> in_range age systolic_bp diastolic_bp total_cholesterol hdl ldl)
   \<and> (in_range age systolic_bp diastolic_bp total_cholesterol hdl ldl
      \<longleftrightarrow> (\<forall>f \<in> set field_order.
             field_min f \<le> field_value f age systolic_bp diastolic_bp total_cholesterol hdl ldl \<and>
             field_value f age systolic_bp diastolic_bp total_cholesterol hdl ldl \<le> field_max f))
   \<and> (\<forall>f. first_violation age systolic_bp diastolic_bp total_cholesterol hdl ldl = Some f
        \<longrightarrow> calculate_ascvd_risk is_male is_black smoker hypertensive diabetic
              age systolic_bp diastolic_bp total_cholesterol hdl ldl
            = Inl (HTTPException 400 (field_detail f)))"
proof (cases "in_range age systolic_bp diastolic_bp total_cholesterol hdl ldl")
  case True
  then have "first_violation age systolic_bp diastolic_bp total_cholesterol hdl ldl = None"
    by (simp add: first_violation_None_iff)
  moreover have "\<forall>f \<in> set field_order.
      field_min f \<le> field_value f age systolic_bp diastolic_bp total_cholesterol hdl ldl \<and>
      field_value f age systolic_bp diastolic_bp total_cholesterol hdl ldl \<le> field_max f"
    using True by (simp add: field_order_def in_range_def)
  ultimately show ?thesis
    using True by (simp add: calculate_in_range)
next
  case False
  then obtain f where f: "first_violation age systolic_bp diastolic_bp total_cholesterol hdl ldl = Some f"
    using first_violation_None_iff [of age systolic_bp diastolic_bp total_cholesterol hdl ldl]
    by (cases "first_violation age systolic_bp diastolic_bp total_cholesterol hdl ldl") auto
  have "\<not> (\<forall>f \<in> set field_order.
      field_min f \<le> field_value f age systolic_bp diastolic_bp total_cholesterol hdl ldl \<and>
      field_value f age systolic_bp diastolic_bp total_cholesterol hdl ldl \<le> field_max f)"
    using False by (simp add: field_order_def in_range_def)
  then show ?thesis
    using False f by (simp add: calculate_out_of_range [OF f])
qed

theorem validation_first_violation_witness:
  "(\<exists>r. calculate_ascvd_risk True False True False True 40 90 60 130 20 30 = Inr r)
   \<and> (\<exists>r. calculate_ascvd_risk False True False True False 79 200 130 320 100 300 = Inr r)
   \<and> calculate_ascvd_risk True True False False False 39 120 80 200 101 100
       = Inl (HTTPException 400 ''Age must be between 40 and 79.'')
   \<and> calculate_ascvd_risk True True False False False 55 120 80 200 101 301
       = Inl (HTTPException 400 ''HDL cholesterol must be between 20 and 100 mg/dL.'')"
proof -
  have 1: "in_range 40 90 60 130 20 30" and 2: "in_range 79 200 130 320 100 300"
    by (simp_all add: in_range_def)
  have 3: "first_violation 39 120 80 200 101 100 = Some Age"
    and 4: "first_violation 55 120 80 200 101 301 = Some HDL"
    by (simp_all add: first_violation_def field_order_def violates_def)
  show ?thesis
    using validation_first_violation [of True False True False True 40 90 60 130 20 30]
      validation_first_violation [of False True False True False 79 200 130 320 100 300]
      validation_first_violation [of True True False False False 39 120 80 200 101 100]
      validation_first_violation [of True True False False False 55 120 80 200 101 301]
      1 2 3 4
    by simp
qed

subsection \<open>The detail of a validation error\<close>

lemma first_violation_violates:
  assumes "first_violation age systolic_bp diastolic_bp total_cholesterol hdl ldl = Some f"
  shows "violates f age systolic_bp diastolic_bp total_cholesterol hdl ldl"
  using assms unfolding first_violation_def by (auto simp: find_Some_iff)

lemma field_detail_names:
  "contains (field_detail f) (field_label f)"
  "contains (field_detail f) (str_int (field_min f))"
  "contains (field_detail f) (str_int (field_max f))"
  by (cases f; simp add: str_int_def digit_char_def)+

text \<open>
  C5, as the source has it. Every failing call raises \<^verbatim>\<open>HTTPException\<close> with status 400
  and the detail string of the first violating field; that string names the field and
  both ends of its valid range. The string is fixed by the field alone: every call whose
  first violating field is the same raises the same error, whatever the values are.
\<close>

theorem validation_detail_names_field_and_range:
  assumes "calculate_ascvd_risk is_male is_black smoker hypertensive diabetic
             age systolic_bp diastolic_bp total_cholesterol hdl ldl = Inl e"
  shows "\<exists>f. first_violation age systolic_bp diastolic_bp total_cholesterol hdl ldl = Some f
           \<and> violates f age systolic_bp diastolic_bp total_cholesterol hdl ldl
           \<and> e = HTTPException 400 (field_detail f)
           \<and> contains (field_detail f) (field_label f)
           \<and> contains (field_detail f) (str_int (field_min f))
           \<and> contains (field_detail f) (str_int (field_max f))
           \<and> (\<forall>is_male' is_black' smoker' hypertensive' diabetic'
                 age' systolic_bp' diastolic_bp' total_cholesterol' hdl' ldl'.
                 first_violation age' systolic_bp' diastolic_bp' total_cholesterol' hdl' ldl' = Some f
                 \<longrightarrow> calculate_ascvd_risk is_male' is_black' smoker' hypertensive' diabetic'
                       age' systolic_bp' diastolic_bp' total_cholesterol' hdl' ldl' = Inl e)"
proof (cases "first_violation age systolic_bp diastolic_bp total_cholesterol hdl ldl")
  case None
  then have "in_range age systolic_bp diastolic_bp total_cholesterol hdl ldl"
    by (simp add: first_violation_None_iff)
  from calculate_in_range [OF this, of is_male is_black smoker hypertensive diabetic] assms
  have False
    by simp
  then show ?thesis ..
next
  case (Some f)
  from calculate_out_of_range [OF Some, of is_male is_black smoker hypertensive diabetic] assms
  have e: "e = HTTPException 400 (field_detail f)"
    by simp
  show ?thesis
  proof (intro exI [of _ f] conjI allI impI)
    show "first_violation age systolic_bp diastolic_bp total_cholesterol hdl ldl = Some f"
      by (rule Some)
    show "violates f age systolic_bp diastolic_bp total_cholesterol hdl ldl"
      by (rule first_violation_violates [OF Some])
    show "e = HTTPException 400 (field_detail f)"
      by (rule e)
    show "contains (field_detail f) (field_label f)"
      by (rule field_detail_names)
    show "contains (field_detail f) (str_int (field_min f))"
      by (rule field_detail_names)
    show "contains (field_detail f) (str_int (field_max f))"
      by (rule field_detail_names)
  next
    fix is_male' is_black' smoker' hypertensive' diabetic' :: bool
    fix age' systolic_bp' diastolic_bp' total_cholesterol' hdl' ldl' :: int
    assume "first_violation age' systolic_bp' diastolic_bp' total_cholesterol' hdl' ldl' = Some f"
    then show "calculate_ascvd_risk is_male' is_black' smoker' hypertensive' diabetic'
        age' systolic_bp' diastolic_bp' total_cholesterol' hdl' ldl' = Inl e"
      unfolding e by (rule calculate_out_of_range)
  qed
qed

theorem validation_detail_names_field_and_range_witness:
  "first_violation 55 120 80 200 101 100 = Some HDL
   \<and> violates HDL 55 120 80 200 101 100
   \<and> calculate_ascvd_risk False False True True False 55 120 80 200 101 100
       = Inl (HTTPException 400 (field_detail HDL))
   \<and> contains (field_detail HDL) (field_label HDL)
   \<and> contains (field_detail HDL) (str_int (field_min HDL))
   \<and> contains (field_detail HDL) (str_int (field_max HDL))
   \<and> calculate_ascvd_risk True True False False True 60 130 90 250 7 500
       = Inl (HTTPException 400 (field_detail HDL))"
proof -
  have v: "first_violation 55 120 80 200 101 100 = Some HDL"
    and v': "first_violation 60 130 90 250 7 500 = Some HDL"
    by (simp_all add: first_violation_def field_order_def violates_def)
  from v have c: "calculate_ascvd_risk False False True True False 55 120 80 200 101 100
      = Inl (HTTPException 400 (field_detail HDL))"
    by (simp add: calculate_ascvd_risk_def validate_first_violation)
  from validation_detail_names_field_and_range [OF c]
  obtain f where f: "first_violation 55 120 80 200 101 100 = Some f"
    and viol: "violates f 55 120 80 200 101 100"
    and names: "contains (field_detail f) (field_label f)"
      "contains (field_detail f) (str_int (field_min f))"
      "contains (field_detail f) (str_int (field_max f))"
    and same: "\<forall>is_male' is_black' smoker' hypertensive' diabetic'
          age' systolic_bp' diastolic_bp' total_cholesterol' hdl' ldl'.
          first_violation age' systolic_bp' diastolic_bp' total_cholesterol' hdl' ldl' = Some f
          \<longrightarrow> calculate_ascvd_risk is_male' is_black' smoker' hypertensive' diabetic'
                age' systolic_bp' diastolic_bp' total_cholesterol' hdl' ldl'
              = Inl (HTTPException 400 (field_detail HDL))"
    by (elim exE conjE) (rule that)
  from f v have fH: "f = HDL"
    by simp
  from same [rule_format, of 60 130 90 250 7 500 True True False False True] v' fH
  have c': "calculate_ascvd_risk True True False False True 60 130 90 250 7 500
       = Inl (HTTPException 400 (field_detail HDL))"
    by simp
  from v viol names c c' fH show ?thesis
    by (simp only: simp_thms)
qed

text \<open>
  C5, as the claim has it, fails: for age 39 the detail is the fixed string
  \<^verbatim>\<open>Age must be between 40 and 79.\<close>, in which 39 does not occur.
\<close>

theorem validation_detail_omits_value:
  "calculate_ascvd_risk True False False False False 39 120 80 200 50 100
     = Inl (HTTPException 400 ''Age must be between 40 and 79.'')
   \<and> \<not> contains ''Age must be between 40 and 79.'' (str_int 39)"
  by (simp add: calculate_ascvd_risk_def validate_input_ranges_def str_int_def digit_char_def)

subsection \<open>The transformed terms and the unused fields\<close>

text \<open>
  C6. For a valid input exactly one of \<^verbatim>\<open>tr_ln_sbp\<close> and \<^verbatim>\<open>nt_ln_sbp\<close> is non-zero,
  the one chosen by the hypertensive flag, and it is the (positive) logarithm of the
  systolic blood pressure.
\<close>

theorem hypertension_mutual_exclusion:
  assumes "in_range age systolic_bp diastolic_bp total_cholesterol hdl ldl"
  shows "\<exists>t. logarithmic_calculations smoker hypertensive age systolic_bp total_cholesterol hdl = Inr t
           \<and> 0 < ln (real_of_int systolic_bp)
           \<and> ((tr_ln_sbp t \<noteq> 0) \<noteq> (nt_ln_sbp t \<noteq> 0))
           \<and> (if hypertensive
               then tr_ln_sbp t = ln (real_of_int systolic_bp) \<and> nt_ln_sbp t = 0
               else nt_ln_sbp t = ln (real_of_int systolic_bp) \<and> tr_ln_sbp t = 0)"
proof -
  have "0 < ln (real_of_int systolic_bp)"
    using ln_bounds_in_range(7) [OF assms] .
  then show ?thesis
    by (simp add: logarithmic_calculations_in_range [OF assms] transformed_terms_def)
qed

theorem hypertension_mutual_exclusion_witness:
  "(\<exists>t. logarithmic_calculations False True 55 120 213 50 = Inr t
       \<and> 0 < ln (real_of_int 120)
       \<and> ((tr_ln_sbp t \<noteq> 0) \<noteq> (nt_ln_sbp t \<noteq> 0))
       \<and> tr_ln_sbp t = ln (real_of_int 120) \<and> nt_ln_sbp t = 0)
   \<and> (\<exists>t. logarithmic_calculations False False 55 120 213 50 = Inr t
       \<and> 0 < ln (real_of_int 120)
       \<and> ((tr_ln_sbp t \<noteq> 0) \<noteq> (nt_ln_sbp t \<noteq> 0))
       \<and> nt_ln_sbp t = ln (real_of_int 120) \<and> tr_ln_sbp t = 0)"
proof -
  have r: "in_range 55 120 80 213 50 100"
    by (simp add: in_range_def)
  show ?thesis
    using hypertension_mutual_exclusion [OF r, of False True]
      hypertension_mutual_exclusion [OF r, of False False]
    by simp
qed

text \<open>
  C9. Two valid inputs that differ only in diastolic blood pressure and LDL get the same
  result: both fields are range-checked and then never read.
\<close>

theorem diastolic_ldl_unused:
  assumes "in_range age systolic_bp diastolic_bp total_cholesterol hdl ldl"
    and "in_range age systolic_bp diastolic_bp' total_cholesterol hdl ldl'"
  shows "calculate_ascvd_risk is_male is_black smoker hypertensive diabetic
           age systolic_bp diastolic_bp total_cholesterol hdl ldl
         = calculate_ascvd_risk is_male is_black smoker hypertensive diabetic
             age systolic_bp diastolic_bp' total_cholesterol hdl ldl'"
  by (simp add: calculate_in_range [OF assms(1)] calculate_in_range [OF assms(2)])

theorem diastolic_ldl_unused_witness:
  "calculate_ascvd_risk False True False False False 55 120 60 213 50 30
   = calculate_ascvd_risk False True False False False 55 120 130 213 50 300"
proof -
  have "in_range 55 120 60 213 50 30" and "in_range 55 120 130 213 50 300"
    by (simp_all add: in_range_def)
  then show ?thesis
    by (rule diastolic_ldl_unused)
qed

text \<open>
  C7. Once the six range checks pass nothing raises: each logarithm is taken of an
  integer that is at least 20, the exponent stays below the overflow bound of
  \<^verbatim>\<open>math.exp\<close>, the base \<^verbatim>\<open>s010\<close> lies strictly between 0 and 1, so the power is
  defined, and the call returns a number.
\<close>

theorem total_after_validation:
  assumes "in_range age systolic_bp diastolic_bp total_cholesterol hdl ldl"
  shows "20 \<le> age \<and> 20 \<le> total_cholesterol \<and> 20 \<le> hdl \<and> 20 \<le> systolic_bp
    \<and> (\<exists>t s010 mnxb predict e p r.
          logarithmic_calculations smoker hypertensive age systolic_bp total_cholesterol hdl = Inr t
        \<and> race_gender_calculation is_male is_black smoker diabetic t = (s010, mnxb, predict)
        \<and> 0 < s010 \<and> s010 < 1
        \<and> py_exp (predict - mnxb) = Inr e
        \<and> py_pow s010 e = Inr p
        \<and> calculate_ascvd_risk is_male is_black smoker hypertensive diabetic
             age systolic_bp diastolic_bp total_cholesterol hdl ldl = Inr r)"
proof -
  let ?t = "transformed_terms smoker hypertensive age systolic_bp total_cholesterol hdl"
  let ?c = "race_gender_calculation is_male is_black smoker diabetic ?t"
  have "20 \<le> age \<and> 20 \<le> total_cholesterol \<and> 20 \<le> hdl \<and> 20 \<le> systolic_bp"
    using assms by (simp add: in_range_def)
  moreover have "logarithmic_calculations smoker hypertensive age systolic_bp total_cholesterol hdl = Inr ?t"
    by (rule logarithmic_calculations_in_range [OF assms])
  moreover have "?c = (fst ?c, fst (snd ?c), snd (snd ?c))"
    by simp
  moreover note s010_unit [of is_male is_black smoker diabetic ?t]
  moreover have "py_exp (snd (snd ?c) - fst (snd ?c)) = Inr (exp (snd (snd ?c) - fst (snd ?c)))"
    using predict_no_overflow [OF assms, of is_male is_black smoker diabetic hypertensive]
    by (simp add: py_exp_def)
  moreover have "py_pow (fst ?c) (exp (snd (snd ?c) - fst (snd ?c)))
      = Inr (fst ?c powr exp (snd (snd ?c) - fst (snd ?c)))"
    by (rule py_pow_unit) (simp_all add: s010_unit)
  moreover note calculate_in_range [OF assms, of is_male is_black smoker hypertensive diabetic]
  ultimately show ?thesis
    by blast
qed

theorem total_after_validation_witness:
  "\<exists>t s010 mnxb predict e p r.
      logarithmic_calculations True True 79 200 320 20 = Inr t
    \<and> race_gender_calculation True False True True t = (s010, mnxb, predict)
    \<and> 0 < s010 \<and> s010 < 1
    \<and> py_exp (predict - mnxb) = Inr e
    \<and> py_pow s010 e = Inr p
    \<and> calculate_ascvd_risk True False True True True 79 200 130 320 20 300 = Inr r"
proof -
  have "in_range 79 200 130 320 20 300"
    by (simp add: in_range_def)
  from total_after_validation [OF this, of True True True False True] show ?thesis
    by simp
qed

subsection \<open>The four branches and the coefficient table\<close>

lemma race_gender_coefficients:
  "race_gender_calculation is_male is_black smoker diabetic t =
     (s010 (coefficients (select_subgroup is_black is_male)),
      meanXB (coefficients (select_subgroup is_black is_male)),
      linear_predictor (coefficients (select_subgroup is_black is_male)) smoker diabetic t)"
  by (cases is_male; cases is_black)
     (simp_all add: race_gender_calculation_def linear_predictor_def)

lemma computeRisk_rounded:
  "computeRisk is_male is_black smoker hypertensive diabetic age systolic_bp total_cholesterol hdl
   = rounded_percentage (race_gender_calculation is_male is_black smoker diabetic
       (transformed_terms smoker hypertensive age systolic_bp total_cholesterol hdl))"
  unfolding race_gender_coefficients
  by (simp add: computeRisk_def rounded_percentage_def transformed_terms_def Let_def)

text \<open>
  C1. For a valid input the call returns what the specification's formula gives:
  \<open>round (risk * 1000) / 10\<close> with \<open>risk = 1 - s010 ^ exp (predict - meanXB)\<close>, where
  \<open>predict\<close> is the selected subgroup's linear combination of the transformed terms
  and of the smoker and diabetic constants.
\<close>

theorem calculate_is_computeRisk:
  assumes "in_range age systolic_bp diastolic_bp total_cholesterol hdl ldl"
  shows "calculate_ascvd_risk is_male is_black smoker hypertensive diabetic
           age systolic_bp diastolic_bp total_cholesterol hdl ldl
         = Inr (computeRisk is_male is_black smoker hypertensive diabetic
                  age systolic_bp total_cholesterol hdl)"
  by (simp add: calculate_in_range [OF assms] computeRisk_rounded)

theorem calculate_is_computeRisk_witness:
  "calculate_ascvd_risk False True False False False 55 120 80 213 50 100
   = Inr (computeRisk False True False False False 55 120 213 50)"
proof -
  have "in_range 55 120 80 213 50 100"
    by (simp add: in_range_def)
  then show ?thesis
    by (rule calculate_is_computeRisk)
qed

text \<open>
  C2. The constants \<^verbatim>\<open>s010\<close> and \<^verbatim>\<open>mnxb\<close> and the coefficients are fixed by the pair
  \<open>(is_black, is_male)\<close> alone, one set per pair, with the documented constants:
  black female 0.95334 and 86.6081, non-black female 0.96652 and -29.1817, black male
  0.89536 and 19.5425, non-black male 0.91436 and 61.1816. A valid call returns the
  value computed from the selected set.
\<close>

theorem subgroup_selection:
  "race_gender_calculation False True smoker diabetic t
     = (0.95334, 86.6081, linear_predictor (coefficients BlackFemale) smoker diabetic t)
   \<and> race_gender_calculation False False smoker diabetic t
     = (0.96652, - 29.1817, linear_predictor (coefficients NonBlackFemale) smoker diabetic t)
   \<and> race_gender_calculation True True smoker diabetic t
     = (0.89536, 19.5425, linear_predictor (coefficients BlackMale) smoker diabetic t)
   \<and> race_gender_calculation True False smoker diabetic t
     = (0.91436, 61.1816, linear_predictor (coefficients NonBlackMale) smoker diabetic t)
   \<and> (in_range age systolic_bp diastolic_bp total_cholesterol hdl ldl \<longrightarrow>
        calculate_ascvd_risk is_male is_black smoker hypertensive diabetic
          age systolic_bp diastolic_bp total_cholesterol hdl ldl
        = Inr (rounded_percentage
            (race_gender_calculation is_male is_black smoker diabetic
               (transformed_terms smoker hypertensive age systolic_bp total_cholesterol hdl))))"
  by (simp add: calculate_in_range race_gender_coefficients)

theorem subgroup_selection_witness:
  "race_gender_calculation False True False False (transformed_terms False False 55 120 213 50)
     = (0.95334, 86.6081, linear_predictor (coefficients BlackFemale) False False
          (transformed_terms False False 55 120 213 50))
   \<and> calculate_ascvd_risk False True False False False 55 120 80 213 50 100
     = Inr (rounded_percentage
         (0.95334, 86.6081,
          linear_predictor (coefficients BlackFemale) False False
            (transformed_terms False False 55 120 213 50)))"
proof -
  have "in_range 55 120 80 213 50 100"
    by (simp add: in_range_def)
  with subgroup_selection [of False False "transformed_terms False False 55 120 213 50"
      55 120 80 213 50 100 False True False]
  show ?thesis
    by simp
qed

lemma has_age_smoke_term_iff: "has_age_smoke_term is_male is_black \<longleftrightarrow> \<not> is_black"
proof (cases is_black)
  case True
  then show ?thesis
    by (cases is_male) (simp_all add: has_age_smoke_term_def predict_of_def race_gender_calculation_def)
next
  case False
  let ?t = "\<lparr> ln_age = 0, ln_total_chol = 0, ln_hdl = 0, tr_ln_sbp = 0, nt_ln_sbp = 0,
     age_total_chol = 0, age_hdl = 0, age_tr_sbp = 0, age_nt_sbp = 0, age_smoke = 0 \<rparr>"
  have "predict_of is_male is_black False False (?t\<lparr>age_smoke := 1\<rparr>)
        \<noteq> predict_of is_male is_black False False ?t"
    using False by (cases is_male) (simp_all add: predict_of_def race_gender_calculation_def)
  then have "has_age_smoke_term is_male is_black"
    unfolding has_age_smoke_term_def by blast
  with False show ?thesis by simp
qed

lemma has_squared_ln_age_term_iff:
  "has_squared_ln_age_term is_male is_black \<longleftrightarrow> \<not> is_male \<and> \<not> is_black"
proof (cases "\<not> is_male \<and> \<not> is_black")
  case True
  let ?t = "\<lparr> ln_age = 0, ln_total_chol = 0, ln_hdl = 0, tr_ln_sbp = 0, nt_ln_sbp = 0,
     age_total_chol = 0, age_hdl = 0, age_tr_sbp = 0, age_nt_sbp = 0, age_smoke = 0 \<rparr>"
  have "predict_of is_male is_black False False (?t\<lparr>ln_age := 0 + 1\<rparr>)
        + predict_of is_male is_black False False (?t\<lparr>ln_age := 0 - 1\<rparr>)
        \<noteq> 2 * predict_of is_male is_black False False (?t\<lparr>ln_age := 0\<rparr>)"
    using True by (simp add: predict_of_def race_gender_calculation_def)
  then have "has_squared_ln_age_term is_male is_black"
    unfolding has_squared_ln_age_term_def by blast
  with True show ?thesis by simp
next
  case False
  then have "\<not> has_squared_ln_age_term is_male is_black"
    by (cases is_male; cases is_black)
       (simp_all add: has_squared_ln_age_term_def predict_of_def race_gender_calculation_def
          ring_distribs)
  with False show ?thesis by simp
qed

text \<open>
  C3, as the source has it. Only the non-black female predictor has a squared
  \<^verbatim>\<open>ln_age\<close> term; the \<^verbatim>\<open>age_smoke\<close> term is in the two non-black predictors (female
  and male) and in neither black predictor.
\<close>

theorem subgroup_term_sets:
  "(has_squared_ln_age_term is_male is_black \<longleftrightarrow> \<not> is_male \<and> \<not> is_black)
   \<and> (has_age_smoke_term is_male is_black \<longleftrightarrow> \<not> is_black)"
  by (simp add: has_squared_ln_age_term_iff has_age_smoke_term_iff)

theorem subgroup_term_sets_witness:
  "has_squared_ln_age_term False False \<and> has_age_smoke_term False False
   \<and> \<not> has_squared_ln_age_term True True \<and> \<not> has_age_smoke_term True True"
  using subgroup_term_sets [of False False] subgroup_term_sets [of True True] by simp

text \<open>
  C3, as the claim has it, fails twice: the black female predictor has neither term, and
  the non-black male predictor has the \<^verbatim>\<open>age_smoke\<close> term.
\<close>

theorem female_male_term_split_fails:
  "\<not> has_squared_ln_age_term False True \<and> \<not> has_age_smoke_term False True
   \<and> has_age_smoke_term True False"
  by (simp add: has_squared_ln_age_term_iff has_age_smoke_term_iff)

subsection \<open>Rounding and the range of the result\<close>

lemma py_round_ge_floor: "\<lfloor>x\<rfloor> \<le> py_round x"
  by (simp add: py_round_def Let_def)

lemma py_round_le_floor_Suc: "py_round x \<le> \<lfloor>x\<rfloor> + 1"
  by (simp add: py_round_def Let_def)

lemma py_round_ge: "real_of_int n \<le> x \<Longrightarrow> n \<le> py_round x"
  using py_round_ge_floor [of x] le_floor_iff [of n x] by linarith

lemma py_round_lt_half:
  assumes "x < real_of_int n + 1 / 2"
  shows "py_round x \<le> n"
proof (cases "\<lfloor>x\<rfloor> < n")
  case True
  with py_round_le_floor_Suc [of x] show ?thesis by linarith
next
  case False
  have "\<lfloor>x\<rfloor> \<le> n"
    using assms by (simp add: floor_le_iff)
  with False have f: "\<lfloor>x\<rfloor> = n" by simp
  with assms have "x - real_of_int \<lfloor>x\<rfloor> < 1 / 2" by simp
  then show ?thesis
    using f by (simp add: py_round_def Let_def)
qed

lemma py_round_gt_half:
  assumes "real_of_int n - 1 / 2 < x"
  shows "n \<le> py_round x"
proof (cases "n \<le> \<lfloor>x\<rfloor>")
  case True
  with py_round_ge_floor [of x] show ?thesis by linarith
next
  case False
  have "real_of_int n - 1 < x" using assms by linarith
  then have "real_of_int (n - 1) \<le> x" by simp
  then have "n - 1 \<le> \<lfloor>x\<rfloor>" by (simp only: le_floor_iff)
  with False have f: "\<lfloor>x\<rfloor> = n - 1" by simp
  with assms have "1 / 2 < x - real_of_int \<lfloor>x\<rfloor>" by simp
  then show ?thesis
    using f by (simp add: py_round_def Let_def)
qed

lemma py_round_le: "x \<le> real_of_int n \<Longrightarrow> py_round x \<le> n"
  by (rule py_round_lt_half) simp

lemma py_round_mono:
  assumes "x \<le> y"
  shows "py_round x \<le> py_round y"
proof (cases "\<lfloor>x\<rfloor> = \<lfloor>y\<rfloor>")
  case True
  have "x - real_of_int \<lfloor>y\<rfloor> \<le> y - real_of_int \<lfloor>y\<rfloor>"
    using assms by simp
  then show ?thesis
    by (auto simp: py_round_def Let_def True)
next
  case False
  have "\<lfloor>x\<rfloor> \<le> \<lfloor>y\<rfloor>"
    using assms by (rule floor_mono)
  with False have "\<lfloor>x\<rfloor> + 1 \<le> \<lfloor>y\<rfloor>" by simp
  with py_round_le_floor_Suc [of x] py_round_ge_floor [of y] show ?thesis
    by linarith
qed

lemma rounded_percentage_mono:
  assumes "0 < s" "s < 1" "p \<le> q"
  shows "rounded_percentage (s, m, p) \<le> rounded_percentage (s, m, q)"
proof -
  have "exp (p - m) \<le> exp (q - m)"
    using assms by simp
  then have "s powr exp (q - m) \<le> s powr exp (p - m)"
    using assms by (intro powr_mono') simp_all
  then have "(1 - s powr exp (p - m)) * 1000 \<le> (1 - s powr exp (q - m)) * 1000"
    by simp
  then have "py_round ((1 - s powr exp (p - m)) * 1000) \<le> py_round ((1 - s powr exp (q - m)) * 1000)"
    by (rule py_round_mono)
  then show ?thesis
    by (simp add: rounded_percentage_def divide_right_mono)
qed

lemma rounded_percentage_bounds:
  assumes "0 < s" "s < 1"
  shows "0 < 1 - s powr exp (p - m)" "1 - s powr exp (p - m) < 1"
    "0 \<le> rounded_percentage (s, m, p)" "rounded_percentage (s, m, p) \<le> 100"
proof -
  have "s powr exp (p - m) < s powr 0"
    using assms by (intro powr_less_mono') simp_all
  then show lo: "0 < 1 - s powr exp (p - m)"
    using assms by simp
  have "0 < s powr exp (p - m)"
    using assms by simp
  then show hi: "1 - s powr exp (p - m) < 1"
    by simp
  have "real_of_int 0 \<le> (1 - s powr exp (p - m)) * 1000"
    using lo by simp
  then have "0 \<le> py_round ((1 - s powr exp (p - m)) * 1000)"
    by (rule py_round_ge)
  then show "0 \<le> rounded_percentage (s, m, p)"
    by (simp add: rounded_percentage_def)
  have "(1 - s powr exp (p - m)) * 1000 \<le> real_of_int 1000"
    using hi by simp
  then have "py_round ((1 - s powr exp (p - m)) * 1000) \<le> 1000"
    by (rule py_round_le)
  then show "rounded_percentage (s, m, p) \<le> 100"
    by (simp add: rounded_percentage_def)
qed


subsection \<open>The black female subgroup at its extreme\<close>

lemma ln_values:
  "3.6883 \<le> ln (40::real)" "ln (40::real) \<le> 3.6891"
  "4.1586 \<le> ln (64::real)" "ln (64::real) \<le> 4.1592"
  "2.9952 \<le> ln (20::real)" "ln (20::real) \<le> 2.9959"
  "5.2973 \<le> ln (200::real)" "ln (200::real) \<le> 5.2986"
  "5.7676 \<le> ln (320::real)" "ln (320::real) \<le> 5.7687"
  using ln2_lower ln2_upper ln5_lower ln5_upper
  by (simp_all add: ln_20 ln_40 ln_64 ln_200 ln_320)

lemma predict_age_40_lower:
  "5.6 \<le> snd (snd (race_gender_calculation False True True True
              (transformed_terms True True 40 200 320 20))) - 86.6081"
proof -
  note v = ln_values
  have AH: "2.9952 * 3.6883 \<le> ln (20::real) * ln 40"
    using mult_lower [of "2.9952" "ln 20" "3.6883" "ln 40"] v by simp
  have AS: "ln (40::real) * ln 200 \<le> 3.6891 * 5.2986"
    using mult_upper [of "ln 40" "3.6891" "ln 200" "5.2986"] v by simp
  show ?thesis
    using v(1) v(9) v(6) v(7) AH AS
    by (simp add: race_gender_calculation_def transformed_terms_def)
qed

lemma predict_age_64_upper:
  "snd (snd (race_gender_calculation False True True True
        (transformed_terms True True 64 200 320 20))) - 86.6081 \<le> 4.2"
proof -
  note v = ln_values
  have AH: "ln (20::real) * ln 64 \<le> 2.9959 * 4.1592"
    using mult_upper [of "ln 20" "2.9959" "ln 64" "4.1592"] v by simp
  have AS: "4.1586 * 5.2973 \<le> ln (64::real) * ln 200"
    using mult_lower [of "4.1586" "ln 64" "5.2973" "ln 200"] v by simp
  show ?thesis
    using v(4) v(10) v(5) v(8) AH AS
    by (simp add: race_gender_calculation_def transformed_terms_def)
qed

lemma exp_5_6_lower: "200 \<le> exp (5.6::real)"
proof -
  have "(200::real) \<le> taylor_exp 12 5.6"
    by (simp add: eval_nat_numeral)
  also have "\<dots> \<le> exp 5.6"
    by (rule taylor_exp_le) simp
  finally show ?thesis .
qed

lemma exp_4_2_upper: "exp (4.2::real) \<le> 70"
proof -
  have "(1 / 70::real) \<le> taylor_exp 20 (- 4.2)"
    by (simp add: eval_nat_numeral)
  also have "\<dots> \<le> exp (- 4.2)"
    by (rule taylor_exp_le) simp
  finally show ?thesis
    by (simp add: exp_minus field_simps)
qed

lemma exp_minus_9_332_upper: "exp (- 9.332::real) < 0.0005"
proof -
  have "(2000::real) < taylor_exp 12 9.332"
    by (simp add: eval_nat_numeral)
  also have "\<dots> \<le> exp 9.332"
    by (rule taylor_exp_le) simp
  finally show ?thesis
    by (simp add: exp_minus field_simps)
qed

lemma exp_minus_3_43_lower: "0.03 \<le> exp (- 3.43::real)"
proof -
  have "(0.03::real) \<le> taylor_exp 16 (- 3.43)"
    by (simp add: eval_nat_numeral)
  also have "\<dots> \<le> exp (- 3.43)"
    by (rule taylor_exp_le) simp
  finally show ?thesis .
qed

lemma ln_s010_black_female:
  "ln (0.95334::real) \<le> - 0.04666" "- 0.049 \<le> ln (0.95334::real)"
proof -
  show "ln (0.95334::real) \<le> - 0.04666"
    using ln_le_minus_one [of "0.95334::real"] by simp
  have "ln (1 / 0.95334::real) \<le> 1 / 0.95334 - 1"
    by (rule ln_le_minus_one) simp
  moreover have "ln (1 / 0.95334::real) = - ln 0.95334"
    by (simp add: ln_div)
  ultimately show "- 0.049 \<le> ln (0.95334::real)"
    by simp
qed

lemma survival_power_small:
  assumes "5.6 \<le> z"
  shows "0.95334 powr exp z < (0.0005::real)"
proof -
  have "exp (5.6::real) \<le> exp z"
    using assms by simp
  with exp_5_6_lower have e: "200 \<le> exp z" by linarith
  have "exp z * ln (0.95334::real) \<le> exp z * (- 0.04666)"
    using ln_s010_black_female(1) by (intro mult_left_mono) simp_all
  also have "\<dots> \<le> 200 * (- 0.04666)"
    using e by simp
  finally have "exp z * ln (0.95334::real) \<le> - 9.332"
    by simp
  then have "exp (exp z * ln (0.95334::real)) \<le> exp (- 9.332)"
    by simp
  with exp_minus_9_332_upper have "exp (exp z * ln (0.95334::real)) < 0.0005"
    by linarith
  then show ?thesis
    by (simp add: powr_def)
qed

lemma survival_power_large:
  assumes "z \<le> 4.2"
  shows "(0.03::real) \<le> 0.95334 powr exp z"
proof -
  have "exp z \<le> exp (4.2::real)"
    using assms by simp
  with exp_4_2_upper have e: "exp z \<le> 70" by linarith
  have "- 3.43 = 70 * (- 0.049::real)"
    by simp
  also have "\<dots> \<le> exp z * (- 0.049)"
    using e by simp
  also have "\<dots> \<le> exp z * ln (0.95334::real)"
    using ln_s010_black_female(2) by (intro mult_left_mono) simp_all
  finally have "exp (- 3.43) \<le> exp (exp z * ln (0.95334::real))"
    by simp
  with exp_minus_3_43_lower have "0.03 \<le> exp (exp z * ln (0.95334::real))"
    by linarith
  then show ?thesis
    by (simp add: powr_def)
qed

lemma rounded_percentage_age_40:
  "rounded_percentage (race_gender_calculation False True True True
     (transformed_terms True True 40 200 320 20)) = 100"
proof -
  let ?t = "transformed_terms True True 40 200 320 20"
  let ?c = "race_gender_calculation False True True True ?t"
  define z where "z = snd (snd ?c) - 86.6081"
  have c: "?c = (0.95334, 86.6081, z + 86.6081)"
    by (simp add: z_def race_gender_calculation_def)
  have p: "0.95334 powr exp z < (0.0005::real)"
    using predict_age_40_lower by (intro survival_power_small) (simp add: z_def)
  have "0 < 0.95334 powr exp z"
    by simp
  then have "(1 - 0.95334 powr exp z) * 1000 \<le> real_of_int 1000"
    by simp
  then have hi: "py_round ((1 - 0.95334 powr exp z) * 1000) \<le> 1000"
    by (rule py_round_le)
  have "real_of_int 1000 - 1 / 2 < (1 - 0.95334 powr exp z) * 1000"
    using p by simp
  then have "1000 \<le> py_round ((1 - 0.95334 powr exp z) * 1000)"
    by (rule py_round_gt_half)
  with hi have "py_round ((1 - 0.95334 powr exp z) * 1000) = 1000"
    by simp
  then show ?thesis
    unfolding c by (simp add: rounded_percentage_def)
qed

lemma rounded_percentage_age_64:
  "rounded_percentage (race_gender_calculation False True True True
     (transformed_terms True True 64 200 320 20)) \<le> 97"
proof -
  let ?t = "transformed_terms True True 64 200 320 20"
  let ?c = "race_gender_calculation False True True True ?t"
  define z where "z = snd (snd ?c) - 86.6081"
  have c: "?c = (0.95334, 86.6081, z + 86.6081)"
    by (simp add: z_def race_gender_calculation_def)
  have p: "(0.03::real) \<le> 0.95334 powr exp z"
    using predict_age_64_upper by (intro survival_power_large) (simp add: z_def)
  then have "(1 - 0.95334 powr exp z) * 1000 \<le> real_of_int 970"
    by simp
  then have "py_round ((1 - 0.95334 powr exp z) * 1000) \<le> 970"
    by (rule py_round_le)
  then show ?thesis
    unfolding c by (simp add: rounded_percentage_def)
qed


subsection \<open>Age and the male predictors\<close>

lemma age_factor_smoker:
  fixes a b c d :: real
  shows "(A' - A) * (a - b * T + c * H - d)
    = (a * A' - b * (A' * T) + c * (A' * H) - d * A') - (a * A - b * (A * T) + c * (A * H) - d * A)"
  by (simp add: algebra_simps)

lemma age_factor_non_smoker:
  fixes a b c :: real
  shows "(A' - A) * (a - b * T + c * H)
    = (a * A' - b * (A' * T) + c * (A' * H)) - (a * A - b * (A * T) + c * (A * H))"
  by (simp add: algebra_simps)

lemma predict_male_mono:
  assumes "in_range age systolic_bp diastolic_bp total_cholesterol hdl ldl"
    and "in_range age' systolic_bp diastolic_bp total_cholesterol hdl ldl"
    and "age \<le> age'"
  shows "snd (snd (race_gender_calculation True is_black smoker diabetic
            (transformed_terms smoker hypertensive age systolic_bp total_cholesterol hdl)))
       \<le> snd (snd (race_gender_calculation True is_black smoker diabetic
            (transformed_terms smoker hypertensive age' systolic_bp total_cholesterol hdl)))"
proof -
  define A where "A = ln (real_of_int age)"
  define A' where "A' = ln (real_of_int age')"
  define T where "T = ln (real_of_int total_cholesterol)"
  define H where "H = ln (real_of_int hdl)"
  define S where "S = ln (real_of_int systolic_bp)"
  have "0 < age"
    using assms(1) by (simp add: in_range_def)
  then have A: "A \<le> A'"
    unfolding A_def A'_def using assms(3) by (rule ln_int_mono)
  have T: "T \<le> 5.7687" and H: "2.995 \<le> H"
    using ln_bounds_in_range [OF assms(1)] by (simp_all add: T_def H_def)
  have "0 \<le> (A' - A) * (12.344 - 2.664 * T + 1.769 * H - 1.795)"
    using A T H by (intro mult_nonneg_nonneg) simp_all
  also have "(A' - A) * (12.344 - 2.664 * T + 1.769 * H - 1.795)
      = (12.344 * A' - 2.664 * (A' * T) + 1.769 * (A' * H) - 1.795 * A')
        - (12.344 * A - 2.664 * (A * T) + 1.769 * (A * H) - 1.795 * A)"
    by (rule age_factor_smoker)
  finally have k1: "12.344 * A - 2.664 * (A * T) + 1.769 * (A * H) - 1.795 * A
      \<le> 12.344 * A' - 2.664 * (A' * T) + 1.769 * (A' * H) - 1.795 * A'"
    by (simp only: diff_ge_0_iff_ge)
  have "0 \<le> (A' - A) * (12.344 - 2.664 * T + 1.769 * H)"
    using A T H by (intro mult_nonneg_nonneg) simp_all
  also have "(A' - A) * (12.344 - 2.664 * T + 1.769 * H)
      = (12.344 * A' - 2.664 * (A' * T) + 1.769 * (A' * H))
        - (12.344 * A - 2.664 * (A * T) + 1.769 * (A * H))"
    by (rule age_factor_non_smoker)
  finally have k0: "12.344 * A - 2.664 * (A * T) + 1.769 * (A * H)
      \<le> 12.344 * A' - 2.664 * (A' * T) + 1.769 * (A' * H)"
    by (simp only: diff_ge_0_iff_ge)
  show ?thesis
  proof (cases is_black)
    case True
    with A show ?thesis
      by (simp add: race_gender_calculation_def transformed_terms_def A_def A'_def)
  next
    case False
    show ?thesis
    proof (cases smoker)
      case True
      with False k1 show ?thesis
        by (simp add: race_gender_calculation_def transformed_terms_def
              A_def A'_def T_def H_def)
    next
      case nonsmoker: False
      with False k0 show ?thesis
        by (simp add: race_gender_calculation_def transformed_terms_def
              A_def A'_def T_def H_def)
    qed
  qed
qed

subsection \<open>The range of the result and its dependence on age\<close>

text \<open>
  C8, as the source has it. For a valid input the unrounded risk that the code computes,
  \<open>1 - s010 powr exp (predict - mnxb)\<close> for the terms, constants and predictor of that
  call, lies strictly between 0 and 1; the call returns its rounding to one decimal,
  which lies in the closed interval from 0 to 100.
\<close>

theorem risk_percentage_range:
  assumes "in_range age systolic_bp diastolic_bp total_cholesterol hdl ldl"
  shows "\<exists>t s010 mnxb predict risk.
      logarithmic_calculations smoker hypertensive age systolic_bp total_cholesterol hdl = Inr t
    \<and> race_gender_calculation is_male is_black smoker diabetic t = (s010, mnxb, predict)
    \<and> risk = 1 - s010 powr exp (predict - mnxb)
    \<and> 0 < risk \<and> risk < 1
    \<and> calculate_ascvd_risk is_male is_black smoker hypertensive diabetic
         age systolic_bp diastolic_bp total_cholesterol hdl ldl
       = Inr (real_of_int (py_round (risk * 1000)) / 10)
    \<and> 0 \<le> real_of_int (py_round (risk * 1000)) / 10
    \<and> real_of_int (py_round (risk * 1000)) / 10 \<le> 100"
proof -
  let ?t = "transformed_terms smoker hypertensive age systolic_bp total_cholesterol hdl"
  let ?c = "race_gender_calculation is_male is_black smoker diabetic ?t"
  let ?s = "fst ?c" and ?m = "fst (snd ?c)" and ?p = "snd (snd ?c)"
  let ?risk = "1 - ?s powr exp (?p - ?m)"
  have s: "0 < ?s" "?s < 1"
    by (rule s010_unit)+
  have r: "rounded_percentage ?c = real_of_int (py_round (?risk * 1000)) / 10"
    by (simp add: rounded_percentage_def case_prod_beta)
  have c: "?c = (?s, ?m, ?p)"
    by simp
  show ?thesis
  proof (rule exI [of _ ?t], rule exI [of _ ?s], rule exI [of _ ?m], rule exI [of _ ?p],
      rule exI [of _ ?risk], intro conjI)
    show "logarithmic_calculations smoker hypertensive age systolic_bp total_cholesterol hdl = Inr ?t"
      by (rule logarithmic_calculations_in_range [OF assms])
    show "?c = (?s, ?m, ?p)"
      by (rule c)
    show "?risk = ?risk" ..
    show "0 < ?risk"
      by (rule rounded_percentage_bounds [OF s])
    show "?risk < 1"
      by (rule rounded_percentage_bounds [OF s])
    show "calculate_ascvd_risk is_male is_black smoker hypertensive diabetic
          age systolic_bp diastolic_bp total_cholesterol hdl ldl
        = Inr (real_of_int (py_round (?risk * 1000)) / 10)"
      using calculate_in_range [OF assms, of is_male is_black smoker hypertensive diabetic]
      by (simp only: r)
    have "0 \<le> rounded_percentage (?s, ?m, ?p)"
      by (rule rounded_percentage_bounds [OF s])
    then show "0 \<le> real_of_int (py_round (?risk * 1000)) / 10"
      by (simp only: c [symmetric] r)
    have "rounded_percentage (?s, ?m, ?p) \<le> 100"
      by (rule rounded_percentage_bounds [OF s])
    then show "real_of_int (py_round (?risk * 1000)) / 10 \<le> 100"
      by (simp only: c [symmetric] r)
  qed
qed

theorem risk_percentage_range_witness:
  "\<exists>t s010 mnxb predict risk.
      logarithmic_calculations False False 55 120 213 50 = Inr t
    \<and> race_gender_calculation False True False False t = (s010, mnxb, predict)
    \<and> risk = 1 - s010 powr exp (predict - mnxb)
    \<and> 0 < risk \<and> risk < 1
    \<and> calculate_ascvd_risk False True False False False 55 120 80 213 50 100
       = Inr (real_of_int (py_round (risk * 1000)) / 10)
    \<and> 0 \<le> real_of_int (py_round (risk * 1000)) / 10
    \<and> real_of_int (py_round (risk * 1000)) / 10 \<le> 100"
proof -
  have "in_range 55 120 80 213 50 100"
    by (simp add: in_range_def)
  then show ?thesis
    by (rule risk_percentage_range)
qed

text \<open>
  C8, as the claim has it, fails: a black female smoker of 40 with treated systolic
  pressure 200, diabetes, total cholesterol 320 and HDL 20 has an unrounded risk above
  0.9995, which rounds to 100.0.
\<close>

theorem risk_percentage_reaches_100:
  "calculate_ascvd_risk False True True True True 40 200 80 320 20 100 = Inr 100"
proof -
  have "in_range 40 200 80 320 20 100"
    by (simp add: in_range_def)
  from calculate_in_range [OF this] show ?thesis
    by (simp add: rounded_percentage_age_40)
qed

text \<open>
  C10, as the source has it. In the two male subgroups the returned percentage does not
  decrease when the age grows and every other field is held fixed.
\<close>

theorem male_risk_monotone_in_age:
  assumes "in_range age systolic_bp diastolic_bp total_cholesterol hdl ldl"
    and "in_range age' systolic_bp diastolic_bp total_cholesterol hdl ldl"
    and "age \<le> age'"
  shows "\<exists>r r'.
      calculate_ascvd_risk True is_black smoker hypertensive diabetic
        age systolic_bp diastolic_bp total_cholesterol hdl ldl = Inr r
    \<and> calculate_ascvd_risk True is_black smoker hypertensive diabetic
        age' systolic_bp diastolic_bp total_cholesterol hdl ldl = Inr r'
    \<and> r \<le> r'"
proof -
  let ?c = "\<lambda>a. race_gender_calculation True is_black smoker diabetic
     (transformed_terms smoker hypertensive a systolic_bp total_cholesterol hdl)"
  have fst_eq: "fst (?c age') = fst (?c age)" "fst (snd (?c age')) = fst (snd (?c age))"
    by (simp_all add: race_gender_calculation_def)
  have "rounded_percentage (fst (?c age), fst (snd (?c age)), snd (snd (?c age)))
      \<le> rounded_percentage (fst (?c age), fst (snd (?c age)), snd (snd (?c age')))"
    by (intro rounded_percentage_mono s010_unit predict_male_mono [OF assms])
  also have "(fst (?c age), fst (snd (?c age)), snd (snd (?c age'))) = ?c age'"
    using fst_eq by (simp add: prod_eq_iff)
  finally have "rounded_percentage (?c age) \<le> rounded_percentage (?c age')"
    by simp
  then show ?thesis
    by (simp add: calculate_in_range [OF assms(1)] calculate_in_range [OF assms(2)])
qed

theorem male_risk_monotone_in_age_witness:
  "\<exists>r r'.
      calculate_ascvd_risk True False True True True 40 200 80 320 20 100 = Inr r
    \<and> calculate_ascvd_risk True False True True True 79 200 80 320 20 100 = Inr r'
    \<and> r \<le> r'"
proof -
  have "in_range 40 200 80 320 20 100" and "in_range 79 200 80 320 20 100"
    and "(40::int) \<le> 79"
    by (simp_all add: in_range_def)
  then show ?thesis
    by (rule male_risk_monotone_in_age)
qed

text \<open>
  C10, as the claim has it, fails in the black female subgroup: with smoker,
  hypertensive and diabetic set, systolic pressure 200, total cholesterol 320 and
  HDL 20, age 40 gives 100.0 and age 64 gives less.
\<close>

theorem female_risk_decreases_with_age:
  "calculate_ascvd_risk False True True True True 40 200 80 320 20 100 = Inr 100
   \<and> (case calculate_ascvd_risk False True True True True 64 200 80 320 20 100 of
         Inl e \<Rightarrow> False
       | Inr r \<Rightarrow> r < 100)"
proof -
  have 1: "in_range 40 200 80 320 20 100" and 2: "in_range 64 200 80 320 20 100"
    by (simp_all add: in_range_def)
  have "rounded_percentage (race_gender_calculation False True True True
     (transformed_terms True True 64 200 320 20)) < 100"
    using rounded_percentage_age_64 by linarith
  then show ?thesis
    by (simp add: calculate_in_range [OF 1] calculate_in_range [OF 2] rounded_percentage_age_40)
qed

end
